theory Spec2Isabelle
  imports Main
begin

section \<open>Python values that the proxy handles\<close>

text \<open>
  The module \<^verbatim>\<open>gprime/proxy/proxybase.py\<close> is duck-typed Python.  A handle reaches it
  either as a \<^verbatim>\<open>str\<close> (a sequence of Unicode code points) or as a \<^verbatim>\<open>bytes\<close> object (a
  sequence of byte values); the two never compare equal in Python, and the source
  converts between them with \<^verbatim>\<open>str(hdl, 'utf-8')\<close> and \<^verbatim>\<open>bytes(handle, "utf-8")\<close>.
  Both conversions raise when applied to the wrong type, so the type tag is kept.
\<close>

datatype py_error =
  AttributeError | TypeError | IndexError | UnicodeDecodeError | UnicodeEncodeError

datatype pyval = Str "nat list" | Bytes "nat list"

definition ascii :: "string \<Rightarrow> nat list" where
  "ascii s = map of_char s"

text \<open>Truth value of a handle, as \<^verbatim>\<open>filter(None, ...)\<close> and \<^verbatim>\<open>if x:\<close> test it: only the
  empty string and the empty bytes object are false.\<close>

fun truthy :: "pyval \<Rightarrow> bool" where
  "truthy (Str s) = (s \<noteq> [])"
| "truthy (Bytes b) = (b \<noteq> [])"

subsection \<open>The UTF-8 codec (strict error handling, as Python's default)\<close>

definition is_cont :: "nat \<Rightarrow> bool" where
  "is_cont b = (0x80 \<le> b \<and> b \<le> 0xBF)"

text \<open>\<open>utf8_first b0 bs\<close> decodes the code point that starts with the byte \<open>b0\<close> and
  returns it with the number of continuation bytes taken from \<open>bs\<close>.  Overlong forms,
  surrogates and values above U+10FFFF are rejected.\<close>

definition utf8_first :: "nat \<Rightarrow> nat list \<Rightarrow> (nat \<times> nat) option" where
  "utf8_first b0 bs =
     (if b0 < 0x80 then Some (b0, 0)
      else if 0xC2 \<le> b0 \<and> b0 \<le> 0xDF then
        (case bs of
           b1 # r \<Rightarrow>
             if is_cont b1 then Some ((b0 - 0xC0) * 64 + (b1 - 0x80), 1) else None
         | _ \<Rightarrow> None)
      else if 0xE0 \<le> b0 \<and> b0 \<le> 0xEF then
        (case bs of
           b1 # b2 # r \<Rightarrow>
             if (if b0 = 0xE0 then 0xA0 else 0x80) \<le> b1
                \<and> b1 \<le> (if b0 = 0xED then 0x9F else 0xBF) \<and> is_cont b2
             then Some ((b0 - 0xE0) * 4096 + (b1 - 0x80) * 64 + (b2 - 0x80), 2)
             else None
         | _ \<Rightarrow> None)
      else if 0xF0 \<le> b0 \<and> b0 \<le> 0xF4 then
        (case bs of
           b1 # b2 # b3 # r \<Rightarrow>
             if (if b0 = 0xF0 then 0x90 else 0x80) \<le> b1
                \<and> b1 \<le> (if b0 = 0xF4 then 0x8F else 0xBF)
                \<and> is_cont b2 \<and> is_cont b3
             then Some ((b0 - 0xF0) * 262144 + (b1 - 0x80) * 4096
                          + (b2 - 0x80) * 64 + (b3 - 0x80), 3)
             else None
         | _ \<Rightarrow> None)
      else None)"

function utf8_decode :: "nat list \<Rightarrow> nat list option" where
  "utf8_decode [] = Some []"
| "utf8_decode (b0 # bs) =
     (case utf8_first b0 bs of
        None \<Rightarrow> None
      | Some (c, k) \<Rightarrow> map_option ((#) c) (utf8_decode (drop k bs)))"
  by pat_completeness auto
termination
  by (relation "measure length") auto

definition utf8_encode_cp :: "nat \<Rightarrow> nat list option" where
  "utf8_encode_cp c =
     (if c < 0x80 then Some [c]
      else if c < 0x800 then Some [0xC0 + c div 64, 0x80 + c mod 64]
      else if 0xD800 \<le> c \<and> c \<le> 0xDFFF then None
      else if c < 0x10000 then
        Some [0xE0 + c div 4096, 0x80 + (c div 64) mod 64, 0x80 + c mod 64]
      else if c < 0x110000 then
        Some [0xF0 + c div 262144, 0x80 + (c div 4096) mod 64,
              0x80 + (c div 64) mod 64, 0x80 + c mod 64]
      else None)"

fun utf8_encode :: "nat list \<Rightarrow> nat list option" where
  "utf8_encode [] = Some []"
| "utf8_encode (c # cs) =
     (case utf8_encode_cp c of
        None \<Rightarrow> None
      | Some bs \<Rightarrow> map_option ((@) bs) (utf8_encode cs))"

text \<open>\<^verbatim>\<open>str(x, 'utf-8')\<close>: decodes a bytes object; \<^verbatim>\<open>TypeError\<close> ("decoding str is not
  supported") on a \<^verbatim>\<open>str\<close>.\<close>

fun str_utf8 :: "pyval \<Rightarrow> py_error + pyval" where
  "str_utf8 (Bytes bs) =
     (case utf8_decode bs of None \<Rightarrow> Inl UnicodeDecodeError | Some s \<Rightarrow> Inr (Str s))"
| "str_utf8 (Str s) = Inl TypeError"

text \<open>\<^verbatim>\<open>bytes(x, "utf-8")\<close>: encodes a \<^verbatim>\<open>str\<close>; \<^verbatim>\<open>TypeError\<close> ("encoding without a string
  argument") on a bytes object.\<close>

fun bytes_utf8 :: "pyval \<Rightarrow> py_error + pyval" where
  "bytes_utf8 (Str s) =
     (case utf8_encode s of None \<Rightarrow> Inl UnicodeEncodeError | Some bs \<Rightarrow> Inr (Bytes bs))"
| "bytes_utf8 (Bytes bs) = Inl TypeError"

text \<open>The builtin \<^verbatim>\<open>filter(pred, iterable)\<close>: with \<^verbatim>\<open>None\<close> for the function it keeps
  the elements that are true.\<close>

definition py_filter :: "(pyval \<Rightarrow> bool) option \<Rightarrow> pyval list \<Rightarrow> pyval list" where
  "py_filter pred iterable =
     (case pred of None \<Rightarrow> filter truthy iterable | Some f \<Rightarrow> filter f iterable)"


section \<open>Entities, kinds and stores\<close>

text \<open>An entity is opaque to the proxy except for its \<^verbatim>\<open>handle\<close> attribute and its
  \<^verbatim>\<open>to_struct()\<close> method, whose result is the raw record.\<close>

record entity =
  handle :: pyval
  to_struct :: string

datatype kind =
  Person | Family | Event | Place | Source | Citation | Repository | Media | Note | Tag

text \<open>
  The wrapped store at the bottom of a chain is not part of the module; it is taken as a
  parameter through the operations the proxy calls on it.  \<open>db_get_from_gid\<close> stands
  for \<^verbatim>\<open>get_<kind>_from_gid\<close>, and for \<^verbatim>\<open>get_tag_from_name\<close> at \<open>Tag\<close>, which the proxy
  filters the same way.  \<open>db_hasattr\<close> tells which attribute names \<^verbatim>\<open>getattr\<close> finds on the
  store.
\<close>

record base_store =
  db_is_open :: bool
  db_get_from_handle :: "kind \<Rightarrow> pyval \<Rightarrow> entity option"
  db_get_from_gid :: "kind \<Rightarrow> pyval \<Rightarrow> entity option"
  db_iter_handles :: "kind \<Rightarrow> pyval list"
  db_iter_objects :: "kind \<Rightarrow> entity list"
  db_get_handles :: "kind \<Rightarrow> bool \<Rightarrow> pyval list"
  db_find_initial_person :: "entity option"
  db_hasattr :: "string \<Rightarrow> bool"

text \<open>The class attributes \<^verbatim>\<open>include_person = ... = include_tag = None\<close>: one optional
  predicate on handles for each kind.\<close>

type_synonym predicates = "kind \<Rightarrow> (pyval \<Rightarrow> bool) option"

text \<open>
  A store reference is a base store or a \<^verbatim>\<open>ProxyDbBase\<close> wrapping a store reference.  The
  constructor reads \<^verbatim>\<open>db.name_formats\<close>, so a proxy that has been constructed wraps a store.
  In the operations below that are defined on a proxy only, the arguments \<open>inc\<close> and \<open>d\<close>
  are the proxy's predicates and its attribute \<^verbatim>\<open>self.db\<close>.  The handle lists alone test
  \<^verbatim>\<open>self.db is not None\<close>; they take the attribute as an optional reference \<open>self_db\<close>.
\<close>

datatype db = BaseDb base_store | ProxyDb predicates db

text \<open>\<^verbatim>\<open>self.basedb\<close>: the constructor walks \<^verbatim>\<open>.db\<close> while the reference is a proxy.\<close>

fun basedb :: "db \<Rightarrow> base_store" where
  "basedb (BaseDb B) = B"
| "basedb (ProxyDb inc d) = basedb d"

fun is_open :: "db \<Rightarrow> bool" where
  "is_open (BaseDb B) = db_is_open B"
| "is_open (ProxyDb inc d) = is_open d"

section \<open>Filtered lookups\<close>

definition gfilter :: "(pyval \<Rightarrow> bool) option \<Rightarrow> entity option \<Rightarrow> entity option" where
  "gfilter predicate obj =
     (case predicate of
        None \<Rightarrow> obj
      | Some p \<Rightarrow>
          (case obj of
             None \<Rightarrow> obj
           | Some e \<Rightarrow> if p (handle e) then obj else None))"

fun get_from_handle :: "db \<Rightarrow> kind \<Rightarrow> pyval \<Rightarrow> entity option" where
  "get_from_handle (BaseDb B) k h = db_get_from_handle B k h"
| "get_from_handle (ProxyDb inc d) k h = gfilter (inc k) (get_from_handle d k h)"

fun get_from_gid :: "db \<Rightarrow> kind \<Rightarrow> pyval \<Rightarrow> entity option" where
  "get_from_gid (BaseDb B) k v = db_get_from_gid B k v"
| "get_from_gid (ProxyDb inc d) k v = gfilter (inc k) (get_from_gid d k v)"

definition has_handle :: "predicates \<Rightarrow> db \<Rightarrow> kind \<Rightarrow> pyval \<Rightarrow> bool" where
  "has_handle inc d k h = (gfilter (inc k) (get_from_handle d k h) \<noteq> None)"

text \<open>\<^verbatim>\<open>get_raw_<kind>_data\<close>: \<^verbatim>\<open>to_struct\<close> of the filtered lookup; on \<^verbatim>\<open>None\<close> the attribute
  access raises \<^verbatim>\<open>AttributeError\<close>.\<close>

definition get_raw_data :: "predicates \<Rightarrow> db \<Rightarrow> kind \<Rightarrow> pyval \<Rightarrow> py_error + string" where
  "get_raw_data inc d k h =
     (case get_from_handle (ProxyDb inc d) k h of
        None \<Rightarrow> Inl AttributeError
      | Some e \<Rightarrow> Inr (to_struct e))"

section \<open>Enumeration\<close>

fun iter_handles :: "db \<Rightarrow> kind \<Rightarrow> pyval list" where
  "iter_handles (BaseDb B) k = db_iter_handles B k"
| "iter_handles (ProxyDb inc d) k = py_filter (inc k) (iter_handles d k)"

text \<open>The helper \<^verbatim>\<open>__iter_object\<close> with \<^verbatim>\<open>order_by\<close> false (its default \<^verbatim>\<open>None\<close>), and with
  an \<^verbatim>\<open>order_by\<close> that is true; \<^verbatim>\<open>sort_objects\<close> is imported from another module and is a
  parameter.\<close>

definition iter_object :: "(pyval \<Rightarrow> bool) option \<Rightarrow> entity list \<Rightarrow> entity list" where
  "iter_object selector objs =
     filter (\<lambda>obj. case selector of None \<Rightarrow> True | Some sel \<Rightarrow> sel (handle obj)) objs"

definition iter_object_ordered ::
  "(entity list \<Rightarrow> 'o \<Rightarrow> entity list) \<Rightarrow> (pyval \<Rightarrow> bool) option \<Rightarrow> entity list \<Rightarrow> 'o
     \<Rightarrow> entity list" where
  "iter_object_ordered sort_objects selector objs order_by =
     sort_objects (iter_object selector objs) order_by"

fun iter_objects :: "db \<Rightarrow> kind \<Rightarrow> entity list" where
  "iter_objects (BaseDb B) k = db_iter_objects B k"
| "iter_objects (ProxyDb inc d) k = iter_object (inc k) (iter_objects d k)"

text \<open>The comprehension \<^verbatim>\<open>[hdl for hdl in all if str(hdl, 'utf-8') in proxied]\<close>; the
  first conversion that raises ends it.\<close>

fun in_proxied :: "pyval list \<Rightarrow> pyval list \<Rightarrow> py_error + pyval list" where
  "in_proxied proxied [] = Inr []"
| "in_proxied proxied (hdl # rest) =
     (case str_utf8 hdl of
        Inl e \<Rightarrow> Inl e
      | Inr s \<Rightarrow>
          (case in_proxied proxied rest of
             Inl e \<Rightarrow> Inl e
           | Inr r \<Rightarrow> Inr (if s \<in> set proxied then hdl # r else r)))"

text \<open>\<^verbatim>\<open>get_event_handles\<close>, \<^verbatim>\<open>get_repository_handles\<close> and \<^verbatim>\<open>get_note_handles\<close> have no
  \<^verbatim>\<open>sort_handles\<close> parameter.\<close>

definition takes_sort_handles :: "kind \<Rightarrow> bool" where
  "takes_sort_handles k = (k \<noteq> Event \<and> k \<noteq> Repository \<and> k \<noteq> Note)"

text \<open>The value of the parameter \<^verbatim>\<open>sort_handles=False\<close>; \<open>None\<close> is a call without the
  argument.\<close>

definition sort_flag :: "bool option \<Rightarrow> bool" where
  "sort_flag sort_handles = (case sort_handles of None \<Rightarrow> False | Some s \<Rightarrow> s)"

text \<open>\<^verbatim>\<open>get_<kind>_handles\<close>.\<close>

definition get_handles ::
  "predicates \<Rightarrow> db option \<Rightarrow> kind \<Rightarrow> bool option \<Rightarrow> py_error + pyval list" where
  "get_handles inc self_db k sort_handles =
     (if sort_handles \<noteq> None \<and> \<not> takes_sort_handles k then Inl TypeError
      else
        (case self_db of
           None \<Rightarrow> Inr []
         | Some d \<Rightarrow>
             if is_open d then
               (if k = Person \<or> k = Family then
                  in_proxied (iter_handles (ProxyDb inc d) k)
                    (db_get_handles (basedb d) k (sort_flag sort_handles))
                else Inr (iter_handles (ProxyDb inc d) k))
             else Inr []))"



text \<open>\<^verbatim>\<open>get_number_of_<kinds>\<close>: the length of the handle list.\<close>

definition get_number_of :: "predicates \<Rightarrow> db \<Rightarrow> kind \<Rightarrow> py_error + nat" where
  "get_number_of inc d k =
     (case get_handles inc (Some d) k None of Inl e \<Rightarrow> Inl e | Inr hs \<Rightarrow> Inr (length hs))"

text \<open>\<^verbatim>\<open>find_initial_person\<close>; in \<^verbatim>\<open>if person and ...\<close> an entity object is true and \<^verbatim>\<open>None\<close> is
  false.\<close>

definition find_initial_person :: "predicates \<Rightarrow> db \<Rightarrow> entity option" where
  "find_initial_person inc d =
     (case db_find_initial_person (basedb d) of
        None \<Rightarrow> None
      | Some person \<Rightarrow>
          if has_handle inc d Person (handle person) then Some person else None)"

section \<open>Cursors\<close>

text \<open>A \<^verbatim>\<open>ProxyCursor\<close> stores two callables.  \<open>cursor_get_handles\<close> is what the call
  \<^verbatim>\<open>self.get_handles()\<close> gives when the cursor is iterated.\<close>

record cursor =
  cursor_get_raw :: "pyval \<Rightarrow> py_error + string"
  cursor_get_handles :: "py_error + pyval list"

definition get_cursor :: "predicates \<Rightarrow> db \<Rightarrow> kind \<Rightarrow> cursor" where
  "get_cursor inc d k =
     \<lparr>cursor_get_raw = get_raw_data inc d k, cursor_get_handles = get_handles inc (Some d) k None\<rparr>"

text \<open>\<^verbatim>\<open>__enter__\<close> returns the cursor itself.  \<^verbatim>\<open>__exit__\<close> is \<^verbatim>\<open>pass\<close>: it returns \<^verbatim>\<open>None\<close>, so
  an exception of the block is not suppressed (\<open>False\<close>).  Neither calls the store.\<close>

definition cursor_enter :: "cursor \<Rightarrow> cursor" where
  "cursor_enter c = c"

definition cursor_exit :: "cursor \<Rightarrow> py_error option \<Rightarrow> bool" where
  "cursor_exit c exc = False"

text \<open>The generator \<^verbatim>\<open>__iter__\<close>: the pairs it yields and the exception that ends it, if
  one does.  In \<^verbatim>\<open>yield bytes(handle, "utf-8"), self.get_raw(handle)\<close> the conversion is
  evaluated first.\<close>

fun cursor_loop ::
  "(pyval \<Rightarrow> py_error + string) \<Rightarrow> pyval list \<Rightarrow> (pyval \<times> string) list \<times> py_error option"
  where
  "cursor_loop raw [] = ([], None)"
| "cursor_loop raw (h # hs) =
     (case bytes_utf8 h of
        Inl e \<Rightarrow> ([], Some e)
      | Inr key \<Rightarrow>
          (case raw h of
             Inl e \<Rightarrow> ([], Some e)
           | Inr r \<Rightarrow> (case cursor_loop raw hs of (ys, err) \<Rightarrow> ((key, r) # ys, err))))"

definition cursor_iter :: "cursor \<Rightarrow> (pyval \<times> string) list \<times> py_error option" where
  "cursor_iter c =
     (case cursor_get_handles c of
        Inl e \<Rightarrow> ([], Some e)
      | Inr hs \<Rightarrow> cursor_loop (cursor_get_raw c) hs)"

section \<open>Attribute lookup\<close>











section \<open>Examples\<close>

definition person_A :: entity where
  "person_A = \<lparr>handle = Str (ascii ''A''), to_struct = ''A (private)''\<rparr>"

definition person_B :: entity where
  "person_B = \<lparr>handle = Str (ascii ''B''), to_struct = ''B (public)''\<rparr>"

definition event_E :: entity where
  "event_E = \<lparr>handle = Str (ascii ''E''), to_struct = ''E''\<rparr>"

text \<open>A base store with the persons A and B and the event E.  Its iterators yield \<^verbatim>\<open>str\<close>
  handles and its handle lists hold the same handles as \<^verbatim>\<open>bytes\<close>, the types the source
  converts from and to.\<close>

definition store1 :: base_store where
  "store1 =
     \<lparr>db_is_open = True,
      db_get_from_handle = (\<lambda>k h.
         if k = Person \<and> h = Str (ascii ''A'') then Some person_A
         else if k = Person \<and> h = Str (ascii ''B'') then Some person_B
         else if k = Event \<and> h = Str (ascii ''E'') then Some event_E
         else None),
      db_get_from_gid = (\<lambda>k v.
         if k = Person \<and> v = Str (ascii ''I0001'') then Some person_A
         else if k = Person \<and> v = Str (ascii ''I0002'') then Some person_B
         else if k = Event \<and> v = Str (ascii ''E0001'') then Some event_E
         else None),
      db_iter_handles = (\<lambda>k.
         if k = Person then [Str (ascii ''A''), Str (ascii ''B'')]
         else if k = Event then [Str (ascii ''E'')] else []),
      db_iter_objects = (\<lambda>k.
         if k = Person then [person_A, person_B]
         else if k = Event then [event_E] else []),
      db_get_handles = (\<lambda>k sort_handles.
         if k = Person then [Bytes (ascii ''A''), Bytes (ascii ''B'')]
         else if k = Event then [Bytes (ascii ''E'')] else []),
      db_find_initial_person = Some person_A,
      db_hasattr = (\<lambda>n. n \<in> set [''get_person_from_handle'', ''get_event_from_handle''])\<rparr>"

text \<open>The predicates of a proxy that hides person A and leaves every other kind at the
  default.\<close>

definition hide_A :: predicates where
  "hide_A = (\<lambda>k. if k = Person then Some (\<lambda>h. h \<noteq> Str (ascii ''A'')) else None)"

definition no_predicates :: predicates where
  "no_predicates = (\<lambda>k. None)"

text \<open>The same store with handle lists of \<^verbatim>\<open>str\<close>.\<close>

definition store1_str :: base_store where
  "store1_str = store1\<lparr>db_get_handles := (\<lambda>k sort_handles. db_iter_handles store1 k)\<rparr>"

text \<open>A store with the same two persons whose handles are \<^verbatim>\<open>bytes\<close> everywhere.\<close>

definition person_A_bytes :: entity where
  "person_A_bytes = \<lparr>handle = Bytes (ascii ''A''), to_struct = ''A (private)''\<rparr>"

definition person_B_bytes :: entity where
  "person_B_bytes = \<lparr>handle = Bytes (ascii ''B''), to_struct = ''B (public)''\<rparr>"

definition store1_bytes :: base_store where
  "store1_bytes =
     \<lparr>db_is_open = True,
      db_get_from_handle = (\<lambda>k h.
         if k = Person \<and> h = Bytes (ascii ''A'') then Some person_A_bytes
         else if k = Person \<and> h = Bytes (ascii ''B'') then Some person_B_bytes
         else None),
      db_get_from_gid = (\<lambda>k v.
         if k = Person \<and> v = Str (ascii ''I0001'') then Some person_A_bytes
         else if k = Person \<and> v = Str (ascii ''I0002'') then Some person_B_bytes
         else None),
      db_iter_handles = (\<lambda>k.
         if k = Person then [Bytes (ascii ''A''), Bytes (ascii ''B'')] else []),
      db_iter_objects = (\<lambda>k. if k = Person then [person_A_bytes, person_B_bytes] else []),
      db_get_handles = (\<lambda>k sort_handles.
         if k = Person then [Bytes (ascii ''A''), Bytes (ascii ''B'')] else []),
      db_find_initial_person = Some person_A_bytes,
      db_hasattr = (\<lambda>n. n = ''get_person_from_handle'')\<rparr>"

text \<open>The same store, closed.\<close>

definition store1_closed :: base_store where
  "store1_closed = store1\<lparr>db_is_open := False\<rparr>"

text \<open>A store whose only entity is an event with the empty string for its handle.\<close>

definition event_empty :: entity where
  "event_empty = \<lparr>handle = Str [], to_struct = ''event''\<rparr>"

definition store2 :: base_store where
  "store2 =
     \<lparr>db_is_open = True,
      db_get_from_handle = (\<lambda>k h. if k = Event \<and> h = Str [] then Some event_empty else None),
      db_get_from_gid = (\<lambda>k v.
         if k = Event \<and> v = Str (ascii ''E0001'') then Some event_empty else None),
      db_iter_handles = (\<lambda>k. if k = Event then [Str []] else []),
      db_iter_objects = (\<lambda>k. if k = Event then [event_empty] else []),
      db_get_handles = (\<lambda>k sort_handles. if k = Event then [Bytes []] else []),
      db_find_initial_person = None,
      db_hasattr = (\<lambda>n. n = ''get_event_from_handle'')\<rparr>"




section \<open>Properties\<close>

subsection \<open>Facts about the examples\<close>

lemma decode_A: "utf8_decode (ascii ''A'') = Some (ascii ''A'')"
  by (simp add: ascii_def utf8_first_def)

lemma decode_B: "utf8_decode (ascii ''B'') = Some (ascii ''B'')"
  by (simp add: ascii_def utf8_first_def)

lemma decode_E: "utf8_decode (ascii ''E'') = Some (ascii ''E'')"
  by (simp add: ascii_def utf8_first_def)

lemma encode_E: "utf8_encode (ascii ''E'') = Some (ascii ''E'')"
  by (simp add: ascii_def utf8_encode_cp_def)

lemma ascii_neq: "ascii ''A'' \<noteq> ascii ''B''" "ascii ''B'' \<noteq> ascii ''A''"
  by (simp_all add: ascii_def)

lemma store1_open: "db_is_open store1" "\<not> db_is_open store1_closed" "db_is_open store1_str"
  "db_is_open store1_bytes"
  by (simp_all add: store1_def store1_closed_def store1_str_def store1_bytes_def)

lemma store1_person:
  "db_iter_handles store1 Person = [Str (ascii ''A''), Str (ascii ''B'')]"
  "db_get_handles store1 Person s = [Bytes (ascii ''A''), Bytes (ascii ''B'')]"
  "db_get_from_handle store1 Person (Str (ascii ''A'')) = Some person_A"
  "db_get_from_handle store1 Person (Str (ascii ''B'')) = Some person_B"
  "db_get_from_handle store1 Person (Bytes b) = None"
  "db_iter_objects store1 Person = [person_A, person_B]"
  "db_find_initial_person store1 = Some person_A"
  by (simp_all add: store1_def ascii_neq)

lemma store1_event:
  "db_iter_handles store1 Event = [Str (ascii ''E'')]"
  "db_get_handles store1 Event s = [Bytes (ascii ''E'')]"
  "db_get_from_handle store1 Event (Str (ascii ''E'')) = Some event_E"
  by (simp_all add: store1_def)

lemma store1_str_person:
  "db_iter_handles store1_str Person = [Str (ascii ''A''), Str (ascii ''B'')]"
  "db_get_handles store1_str Person s = [Str (ascii ''A''), Str (ascii ''B'')]"
  "db_get_from_handle store1_str Person (Str (ascii ''B'')) = Some person_B"
  by (simp_all add: store1_def store1_str_def ascii_neq)

lemma store1_bytes_person:
  "db_iter_handles store1_bytes Person = [Bytes (ascii ''A''), Bytes (ascii ''B'')]"
  "db_get_handles store1_bytes Person s = [Bytes (ascii ''A''), Bytes (ascii ''B'')]"
  "db_get_from_handle store1_bytes Person (Bytes (ascii ''B'')) = Some person_B_bytes"
  by (simp_all add: store1_bytes_def ascii_neq)

lemma example_handles:
  "handle person_A = Str (ascii ''A'')" "handle person_B = Str (ascii ''B'')"
  "handle event_E = Str (ascii ''E'')" "handle event_empty = Str []"
  "to_struct person_A = ''A (private)''" "to_struct person_B = ''B (public)''"
  "to_struct event_E = ''E''"
  by (simp_all add: person_A_def person_B_def event_E_def event_empty_def)

lemma hide_A_simps:
  "hide_A Person = Some (\<lambda>h. h \<noteq> Str (ascii ''A''))" "hide_A Event = None"
  by (simp_all add: hide_A_def)

lemma ascii_nonempty: "ascii ''A'' \<noteq> []" "ascii ''B'' \<noteq> []" "ascii ''E'' \<noteq> []"
  by (simp_all add: ascii_def)


lemma store2_event:
  "db_iter_handles store2 Event = [Str []]"
  "db_iter_objects store2 Event = [event_empty]"
  "db_get_from_handle store2 Event (Str []) = Some event_empty"
  "db_get_from_gid store2 Event (Str (ascii ''E0001'')) = Some event_empty"
  by (simp_all add: store2_def)

lemma no_predicates_simp: "no_predicates k = None"
  by (simp add: no_predicates_def)

subsection \<open>Lookup by handle\<close>

lemma gfilter_Some_iff:
  "gfilter p obj = Some e \<longleftrightarrow>
     obj = Some e \<and> (case p of None \<Rightarrow> True | Some f \<Rightarrow> f (handle e))"
  by (auto simp: gfilter_def split: option.splits)

lemma gfilter_None_iff:
  "gfilter p obj = None \<longleftrightarrow>
     obj = None \<or> (\<exists>e f. obj = Some e \<and> p = Some f \<and> \<not> f (handle e))"
  by (auto simp: gfilter_def split: option.splits)



subsection \<open>The three observations of a handle\<close>

lemma has_handle_iff_get:
  "has_handle inc d k h \<longleftrightarrow> get_from_handle (ProxyDb inc d) k h \<noteq> None"
  by (simp add: has_handle_def)

text \<open>For the kinds other than Person and Family the observations agree on a wrapped
  store whose enumeration and lookup agree, for a handle that is true when the predicate
  is unset.\<close>

lemma has_handle_iff_listed:
  assumes "\<And>h'. (get_from_handle d k h' \<noteq> None) = (h' \<in> set (iter_handles d k))"
    and "\<And>h' e. get_from_handle d k h' = Some e \<Longrightarrow> handle e = h'"
    and "is_open d" and "k \<noteq> Person" and "k \<noteq> Family"
    and "inc k = None \<Longrightarrow> truthy h"
  shows "get_handles inc (Some d) k None = Inr (iter_handles (ProxyDb inc d) k)"
    and "has_handle inc d k h \<longleftrightarrow> h \<in> set (iter_handles (ProxyDb inc d) k)"
proof -
  show "get_handles inc (Some d) k None = Inr (iter_handles (ProxyDb inc d) k)"
    using assms(3-5) by (simp add: get_handles_def)
  show "has_handle inc d k h \<longleftrightarrow> h \<in> set (iter_handles (ProxyDb inc d) k)"
  proof (cases "get_from_handle d k h")
    case None
    with assms(1) [of h] have "h \<notin> set (iter_handles d k)" by simp
    with None show ?thesis
      by (auto simp: has_handle_def gfilter_def py_filter_def split: option.splits)
  next
    case (Some e)
    with assms(1) [of h] have mem: "h \<in> set (iter_handles d k)" by simp
    from Some assms(2) have "handle e = h" by simp
    with Some mem assms(6) show ?thesis
      by (auto simp: has_handle_def gfilter_def py_filter_def split: option.splits)
  qed
qed

text \<open>The handle lists of Person and Family hold bytes objects only, whatever the store.\<close>

lemma in_proxied_bytes:
  "in_proxied proxied all = Inr r \<Longrightarrow> list_all (\<lambda>h. \<exists>b. h = Bytes b) r"
proof (induction all arbitrary: r)
  case Nil
  then show ?case by simp
next
  case (Cons hdl rest)
  then show ?case
    by (cases hdl) (auto split: sum.splits option.splits if_splits)
qed

text \<open>
  C2.  The observations of a handle on the store \<open>store1\<close>, open, with persons A and B and
  no predicate set.  \<^verbatim>\<open>has_person_handle\<close> is true of the handle \<^verbatim>\<open>'B'\<close> and
  \<^verbatim>\<open>get_person_from_handle\<close> returns person B, but \<^verbatim>\<open>get_person_handles()\<close> is the list of
  the base store's bytes handles, of which \<^verbatim>\<open>'B'\<close> is not a member.  When the base store's
  list holds \<^verbatim>\<open>str\<close> handles instead, \<^verbatim>\<open>get_person_handles()\<close> raises \<^verbatim>\<open>TypeError\<close>; when the
  store uses \<^verbatim>\<open>bytes\<close> handles everywhere, \<^verbatim>\<open>has_person_handle\<close> is true of \<^verbatim>\<open>b'B'\<close> and
  \<^verbatim>\<open>get_person_handles()\<close> is empty.  For the event E of \<open>store1\<close> the three observations
  agree.
\<close>

theorem person_handles_disagree:
  "is_open (BaseDb store1)
   \<and> has_handle no_predicates (BaseDb store1) Person (Str (ascii ''B''))
   \<and> get_from_handle (ProxyDb no_predicates (BaseDb store1)) Person (Str (ascii ''B''))
       = Some person_B
   \<and> iter_handles (ProxyDb no_predicates (BaseDb store1)) Person
       = [Str (ascii ''A''), Str (ascii ''B'')]
   \<and> get_handles no_predicates (Some (BaseDb store1)) Person None
       = Inr [Bytes (ascii ''A''), Bytes (ascii ''B'')]
   \<and> Str (ascii ''B'') \<notin> set [Bytes (ascii ''A''), Bytes (ascii ''B'')]
   \<and> has_handle no_predicates (BaseDb store1_str) Person (Str (ascii ''B''))
   \<and> get_handles no_predicates (Some (BaseDb store1_str)) Person None = Inl TypeError
   \<and> has_handle no_predicates (BaseDb store1_bytes) Person (Bytes (ascii ''B''))
   \<and> get_handles no_predicates (Some (BaseDb store1_bytes)) Person None = Inr []
   \<and> has_handle no_predicates (BaseDb store1) Event (Str (ascii ''E''))
   \<and> get_handles no_predicates (Some (BaseDb store1)) Event None = Inr [Str (ascii ''E'')]"
  by (simp add: has_handle_def get_handles_def gfilter_def no_predicates_simp store1_open
      store1_person store1_event store1_str_person store1_bytes_person py_filter_def
      ascii_nonempty sort_flag_def decode_A decode_B takes_sort_handles_def)

subsection \<open>The default predicate\<close>

text \<open>With the predicate of a kind unset, the lookups and the iteration over entities
  return what the wrapped store returns; the iteration over handles returns the wrapped
  store's handles that are true, which is all of them when none is empty.\<close>

lemma default_predicate_transparent:
  assumes "inc k = None"
  shows "get_from_handle (ProxyDb inc d) k h = get_from_handle d k h"
    and "get_from_gid (ProxyDb inc d) k v = get_from_gid d k v"
    and "iter_objects (ProxyDb inc d) k = iter_objects d k"
    and "iter_handles (ProxyDb inc d) k = filter truthy (iter_handles d k)"
    and "list_all truthy (iter_handles d k)
          \<Longrightarrow> iter_handles (ProxyDb inc d) k = iter_handles d k"
  using assms
  by (simp_all add: gfilter_def iter_object_def py_filter_def list_all_iff)

text \<open>
  C3.  The store \<open>store2\<close> enumerates one event handle, the empty string.  Through a proxy
  with no predicate set, \<^verbatim>\<open>iter_event_handles()\<close> yields nothing, while the wrapped store
  yields that handle; \<^verbatim>\<open>iter_events()\<close>, \<^verbatim>\<open>get_event_from_handle\<close> and \<^verbatim>\<open>get_event_from_gid\<close>
  return what the wrapped store returns.
\<close>

theorem default_predicate_drops_empty_handle:
  "iter_handles (BaseDb store2) Event = [Str []]
   \<and> iter_handles (ProxyDb no_predicates (BaseDb store2)) Event = []
   \<and> iter_objects (ProxyDb no_predicates (BaseDb store2)) Event = [event_empty]
   \<and> get_from_handle (ProxyDb no_predicates (BaseDb store2)) Event (Str []) = Some event_empty
   \<and> get_from_gid (ProxyDb no_predicates (BaseDb store2)) Event (Str (ascii ''E0001''))
       = Some event_empty"
  by (simp add: no_predicates_simp store2_event py_filter_def iter_object_def gfilter_def)

subsection \<open>Attribute fallback\<close>




subsection \<open>Unfiltered accessors\<close>






subsection \<open>Handle lists\<close>




subsection \<open>Raw records\<close>

text \<open>
  C7.  For every kind and handle, \<^verbatim>\<open>get_raw_<kind>_data(h)\<close> returns a value exactly when
  the filtered lookup returns an entity, and the value is that entity's \<^verbatim>\<open>to_struct()\<close>,
  computed at the call.  It raises exactly when the handle is absent from the wrapped
  store or the entity is excluded by the predicate; no serialization is returned then.
\<close>

theorem get_raw_data_serializes:
  "(get_raw_data inc d k h = Inr r \<longleftrightarrow>
      (\<exists>e. get_from_handle (ProxyDb inc d) k h = Some e \<and> r = to_struct e))
   \<and> ((\<exists>err. get_raw_data inc d k h = Inl err) \<longleftrightarrow>
      get_from_handle d k h = None
      \<or> (\<exists>e f. get_from_handle d k h = Some e \<and> inc k = Some f \<and> \<not> f (handle e)))
   \<and> (get_raw_data inc d k h = Inl AttributeError \<longleftrightarrow>
      get_from_handle (ProxyDb inc d) k h = None)"
proof (cases "get_from_handle (ProxyDb inc d) k h")
  case None
  then have "get_raw_data inc d k h = Inl AttributeError"
    by (simp add: get_raw_data_def)
  moreover from None have "get_from_handle d k h = None
      \<or> (\<exists>e f. get_from_handle d k h = Some e \<and> inc k = Some f \<and> \<not> f (handle e))"
    by (simp add: gfilter_None_iff)
  ultimately show ?thesis using None by simp
next
  case (Some e)
  then have raw: "get_raw_data inc d k h = Inr (to_struct e)"
    by (simp add: get_raw_data_def)
  from Some have "get_from_handle d k h = Some e"
    and "\<And>f. inc k = Some f \<Longrightarrow> f (handle e)"
    by (auto simp: gfilter_Some_iff)
  with raw Some show ?thesis by auto
qed

theorem get_raw_data_serializes_witness:
  "get_raw_data hide_A (BaseDb store1) Person (Str (ascii ''B'')) = Inr ''B (public)''
   \<and> get_raw_data hide_A (BaseDb store1) Person (Str (ascii ''A'')) = Inl AttributeError
   \<and> get_raw_data hide_A (BaseDb store1) Person (Bytes (ascii ''B'')) = Inl AttributeError"
  using get_raw_data_serializes
      [of hide_A "BaseDb store1" Person "Str (ascii ''B'')" "''B (public)''"]
    get_raw_data_serializes [of hide_A "BaseDb store1" Person "Str (ascii ''A'')"]
    get_raw_data_serializes [of hide_A "BaseDb store1" Person "Bytes (ascii ''B'')"]
  by (simp add: store1_person hide_A_simps example_handles gfilter_def ascii_neq)

subsection \<open>Proxies of proxies\<close>

text \<open>Each layer filters the enumeration of the store it wraps; a layer whose predicate is
  unset keeps the handles that are true.\<close>

lemma chain_visible_general:
  "iter_handles (ProxyDb outer (ProxyDb inner (BaseDb B))) k
     = py_filter (outer k) (py_filter (inner k) (db_iter_handles B k))"
  by simp



subsection \<open>Cursors\<close>

text \<open>A cursor of Person or of Family never yields a pair, whatever the store and the
  predicates: the handles it receives are bytes objects, which \<^verbatim>\<open>bytes(handle, "utf-8")\<close>
  refuses.\<close>

lemma cursor_loop_bytes:
  "list_all (\<lambda>h. \<exists>b. h = Bytes b) hs \<Longrightarrow> fst (cursor_loop raw hs) = []"
  by (cases hs) auto

lemma person_family_cursor_yields_nothing:
  assumes "k = Person \<or> k = Family"
  shows "fst (cursor_iter (get_cursor inc d k)) = []"
proof (cases "get_handles inc (Some d) k None")
  case (Inl e)
  then show ?thesis by (simp add: cursor_iter_def get_cursor_def)
next
  case (Inr hs)
  have "list_all (\<lambda>h. \<exists>b. h = Bytes b) hs"
  proof (cases "is_open d")
    case True
    with Inr assms show ?thesis
      by (auto simp: get_handles_def takes_sort_handles_def dest: in_proxied_bytes)
  next
    case False
    with Inr assms show ?thesis
      by (auto simp: get_handles_def takes_sort_handles_def)
  qed
  then show ?thesis
    using Inr by (simp add: cursor_iter_def get_cursor_def cursor_loop_bytes)
qed

text \<open>For the other kinds, on an open wrapped store whose filtered handles are strings
  that encode and whose filtered lookups are present, the cursor yields one pair for each
  filtered handle, in order, and ends; entering returns the cursor and leaving does not
  suppress an exception.\<close>

lemma cursor_loop_map:
  "list_all (\<lambda>h. (\<exists>b. bytes_utf8 h = Inr b) \<and> (\<exists>r. raw h = Inr r)) hs
   \<Longrightarrow> cursor_loop raw hs = (map (\<lambda>h. (projr (bytes_utf8 h), projr (raw h))) hs, None)"
  by (induction hs) auto

lemma cursor_yields_filtered_records:
  assumes "k \<noteq> Person" and "k \<noteq> Family" and "is_open d"
    and "list_all (\<lambda>h. (\<exists>b. bytes_utf8 h = Inr b)
                     \<and> (\<exists>e. get_from_handle (ProxyDb inc d) k h = Some e))
           (iter_handles (ProxyDb inc d) k)"
  shows "cursor_enter (get_cursor inc d k) = get_cursor inc d k
         \<and> \<not> cursor_exit (get_cursor inc d k) exc
         \<and> cursor_iter (cursor_enter (get_cursor inc d k))
           = (map (\<lambda>h. (projr (bytes_utf8 h), projr (get_raw_data inc d k h)))
                (iter_handles (ProxyDb inc d) k), None)"
proof -
  have handles: "get_handles inc (Some d) k None = Inr (iter_handles (ProxyDb inc d) k)"
    using assms(1-3) by (simp add: get_handles_def)
  have "list_all (\<lambda>h. (\<exists>b. bytes_utf8 h = Inr b) \<and> (\<exists>r. get_raw_data inc d k h = Inr r))
          (iter_handles (ProxyDb inc d) k)"
    using assms(4) by (auto simp: list_all_iff get_raw_data_def)
  then have "cursor_loop (get_raw_data inc d k) (iter_handles (ProxyDb inc d) k)
      = (map (\<lambda>h. (projr (bytes_utf8 h), projr (get_raw_data inc d k h)))
           (iter_handles (ProxyDb inc d) k), None)"
    by (rule cursor_loop_map)
  with handles show ?thesis
    by (simp add: cursor_iter_def cursor_enter_def cursor_exit_def get_cursor_def)
qed

text \<open>
  C9.  On the open store \<open>store1\<close>, through a proxy that hides person A, the filtered person
  handles are the one handle of B, and iterating the person cursor inside its block
  yields no pair and raises \<^verbatim>\<open>TypeError\<close>, which \<^verbatim>\<open>__exit__\<close> lets through; it does the same
  when the base store's list holds \<^verbatim>\<open>str\<close> handles, and when the store uses \<^verbatim>\<open>bytes\<close>
  handles everywhere the cursor ends without a pair for the visible persons.  The event cursor of the same proxy yields the pair of the encoded
  handle and the raw record of E and ends.
\<close>

theorem person_cursor_raises:
  "get_handles hide_A (Some (BaseDb store1)) Person None = Inr [Bytes (ascii ''B'')]
   \<and> cursor_iter (cursor_enter (get_cursor hide_A (BaseDb store1) Person))
       = ([], Some TypeError)
   \<and> cursor_iter (cursor_enter (get_cursor hide_A (BaseDb store1_str) Person))
       = ([], Some TypeError)
   \<and> \<not> cursor_exit (get_cursor hide_A (BaseDb store1) Person) (Some TypeError)
   \<and> iter_handles (ProxyDb hide_A (BaseDb store1_bytes)) Person
       = [Bytes (ascii ''A''), Bytes (ascii ''B'')]
   \<and> cursor_iter (cursor_enter (get_cursor hide_A (BaseDb store1_bytes) Person)) = ([], None)
   \<and> cursor_iter (cursor_enter (get_cursor hide_A (BaseDb store1) Event))
       = ([(Bytes (ascii ''E''), ''E'')], None)"
  by (simp add: cursor_iter_def cursor_enter_def cursor_exit_def get_cursor_def get_handles_def
      get_raw_data_def gfilter_def hide_A_simps store1_open store1_person store1_event
      store1_str_person store1_bytes_person py_filter_def ascii_nonempty sort_flag_def
      decode_A decode_B takes_sort_handles_def ascii_neq encode_E example_handles)

subsection \<open>The initial person\<close>

text \<open>
  C10.  \<^verbatim>\<open>find_initial_person()\<close> returns the base store's initial person exactly when the
  base store yields one and the proxy's \<^verbatim>\<open>has_person_handle\<close> is true of its handle; it
  returns None when the base store yields none or that test fails, in particular when the
  proxy's person predicate rejects the entity.
\<close>

theorem find_initial_person_filtered:
  "(find_initial_person inc d = Some p \<longleftrightarrow>
      db_find_initial_person (basedb d) = Some p \<and> has_handle inc d Person (handle p))
   \<and> (find_initial_person inc d = None \<longleftrightarrow>
      db_find_initial_person (basedb d) = None
      \<or> (\<exists>q. db_find_initial_person (basedb d) = Some q
              \<and> \<not> has_handle inc d Person (handle q)))
   \<and> (\<forall>q e f. db_find_initial_person (basedb d) = Some q
         \<and> get_from_handle d Person (handle q) = Some e
         \<and> inc Person = Some f \<and> \<not> f (handle e)
       \<longrightarrow> find_initial_person inc d = None)"
proof (cases "db_find_initial_person (basedb d)")
  case None
  then show ?thesis by (simp add: find_initial_person_def)
next
  case (Some person)
  show ?thesis
  proof (cases "has_handle inc d Person (handle person)")
    case True
    with Some show ?thesis
      by (auto simp: find_initial_person_def has_handle_def gfilter_def)
  next
    case False
    with Some show ?thesis by (auto simp: find_initial_person_def)
  qed
qed

theorem find_initial_person_filtered_witness:
  "find_initial_person hide_A (BaseDb store1) = None
   \<and> find_initial_person no_predicates (BaseDb store1) = Some person_A
   \<and> find_initial_person hide_A (BaseDb store2) = None"
  using find_initial_person_filtered [of hide_A "BaseDb store1" person_A]
    find_initial_person_filtered [of no_predicates "BaseDb store1" person_A]
    find_initial_person_filtered [of hide_A "BaseDb store2"]
  by (simp add: store1_person example_handles hide_A_simps has_handle_def gfilter_def
      no_predicates_def store2_def)

end
